theory Spec2Isabelle
  imports Complex_Main "HOL-Library.Sublist"
begin

section \<open>JavaScript values used by the scraper subsystem\<close>

text \<open>
  A JavaScript string is modelled as a \<^typ>\<open>string\<close> whose characters are the code units
  0..255 (Latin-1), which covers every literal and pattern of the sources, including the
  accented letter (code unit 237) of the Spanish word for day. \<^verbatim>\<open>undefined\<close> and absent properties are \<open>None\<close>.
\<close>

definition isWhiteSpace :: "char \<Rightarrow> bool" where
  \<comment> \<open>the class \<^verbatim>\<open>\s\<close> of a regular expression, also what \<^verbatim>\<open>trim()\<close> strips\<close>
  "isWhiteSpace c = ((of_char c :: nat) \<in> {9, 10, 11, 12, 13, 32, 160})"

definition isDigit :: "char \<Rightarrow> bool" where
  \<comment> \<open>the class \<^verbatim>\<open>\d\<close>\<close>
  "isDigit c = (48 \<le> (of_char c :: nat) \<and> (of_char c :: nat) \<le> 57)"

definition toLowerChar :: "char \<Rightarrow> char" where
  "toLowerChar c =
     (let n = (of_char c :: nat)
      in if (65 \<le> n \<and> n \<le> 90) \<or> (192 \<le> n \<and> n \<le> 214) \<or> (216 \<le> n \<and> n \<le> 222)
         then char_of (n + 32) else c)"

definition toUpperChar :: "char \<Rightarrow> char" where
  \<comment> \<open>the canonicalisation of the \<^verbatim>\<open>i\<close> flag\<close>
  "toUpperChar c =
     (let n = (of_char c :: nat)
      in if (97 \<le> n \<and> n \<le> 122) \<or> (224 \<le> n \<and> n \<le> 246) \<or> (248 \<le> n \<and> n \<le> 254)
         then char_of (n - 32) else c)"

definition toLowerCase :: "string \<Rightarrow> string" where
  "toLowerCase s = map toLowerChar s"

definition trim :: "string \<Rightarrow> string" where
  "trim s = rev (dropWhile isWhiteSpace (rev (dropWhile isWhiteSpace s)))"

definition startsWith :: "string \<Rightarrow> string \<Rightarrow> bool" where
  "startsWith s p = (take (length p) s = p)"

definition substring :: "string \<Rightarrow> nat \<Rightarrow> nat \<Rightarrow> string" where
  \<comment> \<open>\<^verbatim>\<open>s.substring(a, b)\<close> with \<open>a \<le> b\<close>\<close>
  "substring s a b = take (b - a) (drop a s)"

definition truthy :: "string option \<Rightarrow> bool" where
  \<comment> \<open>a property that is present and not the empty string\<close>
  "truthy v = (case v of None \<Rightarrow> False | Some s \<Rightarrow> s \<noteq> [])"

definition truthyNum :: "int option \<Rightarrow> bool" where
  \<comment> \<open>a numeric property that is present and not 0\<close>
  "truthyNum v = (case v of None \<Rightarrow> False | Some n \<Rightarrow> n \<noteq> 0)"

definition digitChar :: "nat \<Rightarrow> char" where
  "digitChar d = char_of (48 + d)"

fun showNat :: "nat \<Rightarrow> string" where
  "showNat n = (if n < 10 then [digitChar n] else showNat (n div 10) @ [digitChar (n mod 10)])"

definition showInt :: "int \<Rightarrow> string" where
  \<comment> \<open>\<^verbatim>\<open>String(n)\<close> of an integral number\<close>
  "showInt i = (if i < 0 then CHR ''-'' # showNat (nat (- i)) else showNat (nat i))"

definition digitsValue :: "string \<Rightarrow> nat" where
  "digitsValue ds = foldl (\<lambda>acc c. 10 * acc + ((of_char c :: nat) - 48)) 0 ds"

definition parseInt :: "string option \<Rightarrow> int option" where
  \<comment> \<open>\<^verbatim>\<open>parseInt(x)\<close>: \<open>None\<close> is \<^verbatim>\<open>NaN\<close>; \<^verbatim>\<open>undefined\<close> has no digits\<close>
  "parseInt v =
     (case v of
        None \<Rightarrow> None
      | Some s \<Rightarrow>
          (let t = dropWhile isWhiteSpace s;
               neg = (t \<noteq> [] \<and> hd t = CHR ''-'');
               u = (if t \<noteq> [] \<and> (hd t = CHR ''-'' \<or> hd t = CHR ''+'') then tl t else t);
               ds = takeWhile isDigit u
           in if ds = [] then None
              else Some (if neg then - int (digitsValue ds) else int (digitsValue ds))))"

datatype jsdate = Date int | InvalidDate

definition timeClip :: "int \<Rightarrow> jsdate" where
  "timeClip t = (if \<bar>t\<bar> \<le> 8640000000000000 then Date t else InvalidDate)"

text \<open>
  The local time zone is taken to have a fixed offset from UTC, so that moving the day of
  the month or the hour of a date moves its time value by whole days or hours.
\<close>

definition setDateBack :: "jsdate \<Rightarrow> int option \<Rightarrow> jsdate" where
  \<comment> \<open>\<^verbatim>\<open>d.setDate(d.getDate() - n)\<close>\<close>
  "setDateBack d n =
     (case d of
        InvalidDate \<Rightarrow> InvalidDate
      | Date t \<Rightarrow> (case n of None \<Rightarrow> InvalidDate | Some k \<Rightarrow> timeClip (t - k * 86400000)))"

definition setHoursBack :: "jsdate \<Rightarrow> int option \<Rightarrow> jsdate" where
  \<comment> \<open>\<^verbatim>\<open>d.setHours(d.getHours() - n)\<close>\<close>
  "setHoursBack d n =
     (case d of
        InvalidDate \<Rightarrow> InvalidDate
      | Date t \<Rightarrow> (case n of None \<Rightarrow> InvalidDate | Some k \<Rightarrow> timeClip (t - k * 3600000)))"

subsection \<open>Regular expressions\<close>

text \<open>
  The patterns of the sources use character classes, literals (\<open>LitI\<close> is a literal
  under the \<^verbatim>\<open>i\<close> flag), sequence, alternation, greedy repetition and capture groups. \<open>rmatch\<close> is the
  backtracking matcher: it lists, in the order a backtracking engine tries them, the ways
  the pattern matches a prefix of the input, each with the rest of the input and the
  groups captured on the way.
\<close>

datatype rx =
    Digit | Space | Lit string | LitI string | Seq rx rx | Alt rx rx | Star rx | Cap nat rx

type_synonym caps = "(nat \<times> string) list"

fun rmatch :: "rx \<Rightarrow> string \<Rightarrow> caps \<Rightarrow> (string \<times> caps) list" where
  "rmatch Digit s c = (case s of [] \<Rightarrow> [] | x # xs \<Rightarrow> if isDigit x then [(xs, c)] else [])"
| "rmatch Space s c = (case s of [] \<Rightarrow> [] | x # xs \<Rightarrow> if isWhiteSpace x then [(xs, c)] else [])"
| "rmatch (Lit l) s c =
     (if length l \<le> length s \<and> take (length l) s = l then [(drop (length l) s, c)] else [])"
| "rmatch (LitI l) s c =
     (if length l \<le> length s \<and> map toUpperChar (take (length l) s) = map toUpperChar l
      then [(drop (length l) s, c)] else [])"
| "rmatch (Seq a b) s c = concat (map (\<lambda>(s', c'). rmatch b s' c') (rmatch a s c))"
| "rmatch (Alt a b) s c = rmatch a s c @ rmatch b s c"
| "rmatch (Star a) s c =
     concat (map (\<lambda>(s', c'). if length s' < length s then rmatch (Star a) s' c' else [])
                 (rmatch a s c)) @ [(s, c)]"
| "rmatch (Cap n a) s c =
     map (\<lambda>(s', c'). (s', (n, take (length s - length s') s) # c')) (rmatch a s c)"

definition Plus :: "rx \<Rightarrow> rx" where
  "Plus a = Seq a (Star a)"

fun Seqs :: "rx list \<Rightarrow> rx" where
  "Seqs [] = Lit []"
| "Seqs [a] = a"
| "Seqs (a # as) = Seq a (Seqs as)"

fun Alts :: "rx list \<Rightarrow> rx" where
  "Alts [] = Lit []"
| "Alts [a] = a"
| "Alts (a # as) = Alt a (Alts as)"

fun matchFrom :: "rx \<Rightarrow> string \<Rightarrow> caps option" where
  \<comment> \<open>\<^verbatim>\<open>text.match(re)\<close> without the \<^verbatim>\<open>g\<close> flag: the first way to match at the leftmost
      position that has one; \<open>None\<close> is \<^verbatim>\<open>null\<close>\<close>
  "matchFrom r s =
     (case rmatch r s [] of
        (rest, c) # _ \<Rightarrow> Some c
      | [] \<Rightarrow> (case s of [] \<Rightarrow> None | _ # xs \<Rightarrow> matchFrom r xs))"

definition group :: "caps \<Rightarrow> nat \<Rightarrow> string option" where
  \<comment> \<open>\<^verbatim>\<open>m[n]\<close>: a group that took no part in the match is \<^verbatim>\<open>undefined\<close>\<close>
  "group c n = map_of c n"


section \<open>Data model\<close>

text \<open>
  A job object, raw (as extracted) or cleaned (as stored): a property that is absent is
  \<open>None\<close>. \<open>tags\<close> is \<open>None\<close> when the property is not an array.
\<close>

record job =
  title :: "string option"
  company :: "string option"
  location :: "string option"
  description :: "string option"
  source :: "string option"
  applyLink :: "string option"
  externalId :: "string option"
  tags :: "string list option"
  postedAt :: "jsdate option"

datatype exn = Error string | TypeError string

fun message :: "exn \<Rightarrow> string" where
  "message (Error m) = m"
| "message (TypeError m) = m"

text \<open>
  The entries of a scraper's \<^verbatim>\<open>errors\<close> array: \<^verbatim>\<open>{job, error}\<close> pushed by saveJobs,
  \<^verbatim>\<open>{error, stack}\<close> pushed by scrape (the stack text is left out), \<^verbatim>\<open>{index, error}\<close>
  pushed by extractJobsFromPage.
\<close>

datatype error_entry = SaveError job string | ScrapeError string | ExtractError nat string

datatype scraper_class = OficinaDeTrabajoCeiScraper | LinkedInJobsScraper

record config =
  c_baseUrl :: "string option"
  c_source :: "string option"
  c_timeout :: "int option"
  c_maxRetries :: "int option"
  c_delayBetweenRequests :: "int option"
  c_userAgent :: "string option"
  c_jobsPerPage :: "int option"

text \<open>A scraper instance: the fields the constructors set.\<close>

record scraper =
  cls :: scraper_class
  baseUrl :: string
  s_source :: string
  timeout :: int
  maxRetries :: int
  delayBetweenRequests :: int
  userAgent :: string
  jobs :: "job list"
  errors :: "error_entry list"
  searchEndpoint :: string
  jobsPerPage :: "int option"

text \<open>An argument that may be \<^verbatim>\<open>undefined\<close> (or omitted), \<^verbatim>\<open>null\<close>, or an object.\<close>

datatype 'a arg = Undefined | Null | Obj 'a

record options =
  o_query :: "string option"
  o_location :: "string option"
  o_maxPages :: "int option"
  o_config :: "config arg"

record stats =
  saved :: nat
  duplicates :: nat
  failed :: nat
  total :: "nat option"

record scrape_result =
  r_success :: bool
  r_jobs :: "job list"
  r_stats :: stats
  r_errors :: "error_entry list"

text \<open>
  What cheerio selects for one listing element: the text of the title, company, location,
  description and date selectors (empty when nothing matches), the \<^verbatim>\<open>href\<close> of the link
  selector, the texts of the tag elements, the \<^verbatim>\<open>data-type\<close> attribute, and for
  LinkedIn the listed-time text.
\<close>

record element =
  el_title :: string
  el_company :: string
  el_location :: string
  el_description :: string
  el_href :: string
  el_tagTexts :: "string list"
  el_dataType :: "string option"
  el_dateText :: string

subsection \<open>The environment\<close>

text \<open>
  Everything outside the repository is a parameter: the system clock, the random
  generator, the HTTP transport, the HTML query surface, the URL class, \<^verbatim>\<open>Date.parse\<close>
  and the calendar arithmetic of \<^verbatim>\<open>setMonth\<close>, and the failures of the database driver.
\<close>

record env =
  clock :: "nat \<Rightarrow> int"
    \<comment> \<open>the k-th reading of the clock (\<^verbatim>\<open>Date.now()\<close>, \<^verbatim>\<open>new Date()\<close>), in milliseconds\<close>
  random :: "nat \<Rightarrow> string"
    \<comment> \<open>the k-th \<^verbatim>\<open>Math.random().toString(36).substring(2, 7)\<close>\<close>
  axiosGet :: "nat \<Rightarrow> string \<Rightarrow> string + string"
    \<comment> \<open>the n-th HTTP GET, by URL: \<open>Inl\<close> the message of the rejection, \<open>Inr\<close> the body\<close>
  select :: "scraper_class \<Rightarrow> string \<Rightarrow> element list"
    \<comment> \<open>the listing elements the scraper's selector finds in a body\<close>
  newURL :: "string \<Rightarrow> string \<Rightarrow> string option"
    \<comment> \<open>\<^verbatim>\<open>new URL(path, base).toString()\<close>; \<open>None\<close> when the URL is invalid\<close>
  encode :: "string \<Rightarrow> string"
    \<comment> \<open>the encoding \<^verbatim>\<open>searchParams.append\<close> applies to a name or a value\<close>
  dateParse :: "string \<Rightarrow> int option"
    \<comment> \<open>the time value of \<^verbatim>\<open>new Date(text)\<close>; \<open>None\<close> is \<^verbatim>\<open>NaN\<close>\<close>
  monthsBack :: "int \<Rightarrow> int \<Rightarrow> int"
    \<comment> \<open>the time value after \<^verbatim>\<open>d.setMonth(d.getMonth() - n)\<close>\<close>
  updateOneError :: "nat \<Rightarrow> string option"
    \<comment> \<open>whether the n-th \<^verbatim>\<open>Job.updateOne\<close> rejects, and with which message\<close>

text \<open>The effects a run has on the outside, in the order they happen.\<close>

datatype event = Get string | Sleep int | UpdateOne job

fun isGet :: "event \<Rightarrow> bool" where
  "isGet (Get _) = True"
| "isGet _ = False"

fun isUpdateOne :: "event \<Rightarrow> bool" where
  "isUpdateOne (UpdateOne _) = True"
| "isUpdateOne _ = False"

text \<open>
  The state outside a scraper instance: how often the clock and the random generator have
  been read, the effects so far, the documents of the Job collection, and the scraper
  objects allocated so far (an object's address is its index).
\<close>

record world =
  ticks :: nat
  rolls :: nat
  trace :: "event list"
  store :: "job list"
  heap :: "scraper list"

definition now :: "env \<Rightarrow> nat \<Rightarrow> int \<times> nat" where
  \<comment> \<open>\<^verbatim>\<open>Date.now()\<close>, from the number of readings so far\<close>
  "now e k = (clock e k, Suc k)"

definition newDate :: "env \<Rightarrow> nat \<Rightarrow> jsdate \<times> nat" where
  \<comment> \<open>\<^verbatim>\<open>new Date()\<close>\<close>
  "newDate e k = (Date (clock e k), Suc k)"

definition delay :: "int \<Rightarrow> world \<Rightarrow> world" where
  "delay ms w = w\<lparr>trace := trace w @ [Sleep ms]\<rparr>"


section \<open>The base scraper (JobPortalScraper.js)\<close>

text \<open>
  \<^verbatim>\<open>text.replace(re, rep)\<close> with the \<^verbatim>\<open>g\<close> flag: every match, found from left to right, is
  replaced; an empty match is replaced and the next character copied.
\<close>

fun replaceAll :: "rx \<Rightarrow> string \<Rightarrow> string \<Rightarrow> string" where
  "replaceAll r rep s =
     (case rmatch r s [] of
        (rest, c) # _ \<Rightarrow>
          (if length rest < length s then rep @ replaceAll r rep rest
           else (case s of [] \<Rightarrow> rep | x # xs \<Rightarrow> rep @ x # replaceAll r rep xs))
      | [] \<Rightarrow> (case s of [] \<Rightarrow> [] | x # xs \<Rightarrow> x # replaceAll r rep xs))"

definition JobPortalScraper :: "scraper_class \<Rightarrow> config \<Rightarrow> scraper" where
  \<comment> \<open>the constructor of the base class, for an instance of class \<open>k\<close>; the fields of the
      derived classes are set by their own constructors\<close>
  "JobPortalScraper k cfg =
     \<lparr> cls = k,
       baseUrl = (if truthy (c_baseUrl cfg) then the (c_baseUrl cfg) else []),
       s_source = (if truthy (c_source cfg) then the (c_source cfg) else ''Unknown''),
       timeout = (if truthyNum (c_timeout cfg) then the (c_timeout cfg) else 10000),
       maxRetries = (if truthyNum (c_maxRetries cfg) then the (c_maxRetries cfg) else 3),
       delayBetweenRequests =
         (if truthyNum (c_delayBetweenRequests cfg) then the (c_delayBetweenRequests cfg) else 1000),
       userAgent =
         (if truthy (c_userAgent cfg) then the (c_userAgent cfg)
          else ''Mozilla/5.0 (Windows NT 10.0; Win64; x64) AppleWebKit/537.36''),
       jobs = [],
       errors = [],
       searchEndpoint = [],
       jobsPerPage = None \<rparr>"

definition httpGet :: "env \<Rightarrow> string \<Rightarrow> world \<Rightarrow> (string + string) \<times> world" where
  \<comment> \<open>\<^verbatim>\<open>await axios.get(url, ...)\<close>\<close>
  "httpGet e url w =
     (axiosGet e (length (filter isGet (trace w))) url, w\<lparr>trace := trace w @ [Get url]\<rparr>)"

text \<open>
  The retry loop of fetchPage, from attempt \<open>attempt\<close> on, with the last error caught so
  far. When the loop body never runs, \<^verbatim>\<open>lastError\<close> is undefined and reading its message
  is a TypeError.
\<close>

function fetchPageFrom ::
  "env \<Rightarrow> scraper \<Rightarrow> string \<Rightarrow> int \<Rightarrow> string option \<Rightarrow> world \<Rightarrow> (exn + string) \<times> world" where
  "fetchPageFrom e this url attempt lastError w =
     (if attempt \<le> maxRetries this then
        (case httpGet e url w of
           (Inr body, w1) \<Rightarrow> (Inr body, w1)
         | (Inl m, w1) \<Rightarrow>
             fetchPageFrom e this url (attempt + 1) (Some m)
               (if attempt < maxRetries this
                then delay (delayBetweenRequests this * attempt) w1 else w1))
      else
        (case lastError of
           None \<Rightarrow>
             (Inl (TypeError ''Cannot read properties of undefined (reading 'message')''), w)
         | Some m \<Rightarrow>
             (Inl (Error (''Failed to fetch '' @ url @ '' after '' @ showInt (maxRetries this)
                          @ '' attempts: '' @ m)), w)))"
  by pat_completeness auto
termination
  by (relation "measure (\<lambda>(e, this, url, attempt, lastError, w). nat (maxRetries this + 1 - attempt))")
     auto

definition fetchPage :: "env \<Rightarrow> scraper \<Rightarrow> string \<Rightarrow> world \<Rightarrow> (exn + string) \<times> world" where
  "fetchPage e this url w = fetchPageFrom e this url 1 None w"

definition fetchAndParse :: "env \<Rightarrow> scraper \<Rightarrow> string \<Rightarrow> world \<Rightarrow> (exn + string) \<times> world" where
  \<comment> \<open>the parsed document is represented by the body it was loaded from\<close>
  "fetchAndParse e this url w = fetchPage e this url w"

definition cleanText :: "string option \<Rightarrow> string" where
  "cleanText text =
     (if \<not> truthy text then []
      else trim (replaceAll (Plus (Lit [CHR 0x0A])) '' ''
                   (replaceAll (Plus Space) '' '' (the text))))"

definition slug :: "string option \<Rightarrow> nat \<Rightarrow> string" where
  \<comment> \<open>\<^verbatim>\<open>x?.toLowerCase().replace(/\s+/g, '-').substring(0, n) || 'unknown'\<close>\<close>
  "slug x n =
     (case x of
        None \<Rightarrow> ''unknown''
      | Some s \<Rightarrow>
          (let t = substring (replaceAll (Plus Space) ''-'' (toLowerCase s)) 0 n
           in if t = [] then ''unknown'' else t))"

definition generateExternalId :: "env \<Rightarrow> scraper \<Rightarrow> job \<Rightarrow> nat \<Rightarrow> string \<times> nat" where
  "generateExternalId e this j k =
     (let src = replaceAll (Plus Space) ''-'' (toLowerCase (s_source this));
          titleSlug = slug (title j) 50;
          companySlug = slug (company j) 30;
          (timestamp, k1) = now e k
      in (src @ ''-'' @ companySlug @ ''-'' @ titleSlug @ ''-'' @ showInt timestamp, k1))"

definition baseCleanJobData :: "env \<Rightarrow> scraper \<Rightarrow> job \<Rightarrow> nat \<Rightarrow> job \<times> nat" where
  \<comment> \<open>JobPortalScraper.cleanJobData; the clock is read for a generated id, then for a
      default \<^verbatim>\<open>postedAt\<close>\<close>
  "baseCleanJobData e this j k =
     (let (eid, k1) = (if truthy (externalId j) then (the (externalId j), k)
                       else generateExternalId e this j k);
          (posted, k2) = (case postedAt j of Some d \<Rightarrow> (d, k1) | None \<Rightarrow> newDate e k1)
      in (\<lparr> title = Some (cleanText (title j)),
            company = Some (cleanText (company j)),
            location = Some (cleanText (location j)),
            description = Some (cleanText (description j)),
            source = Some (s_source this),
            applyLink = Some (case applyLink j of None \<Rightarrow> [] | Some l \<Rightarrow> trim l),
            externalId = Some eid,
            tags = Some (case tags j of None \<Rightarrow> [] | Some ts \<Rightarrow> filter (\<lambda>t. t \<noteq> []) ts),
            postedAt = Some posted \<rparr>, k2))"

definition validateJobData :: "job \<Rightarrow> bool" where
  "validateJobData j =
     (let missing = filter (\<lambda>field. \<not> truthy (field j)) [title, company, location, applyLink, source]
      in \<not> length missing > 0)"


subsection \<open>The Job collection\<close>

record update_result =
  upsertedCount :: nat
  matchedCount :: nat

definition setFields :: "job \<Rightarrow> job \<Rightarrow> job" where
  \<comment> \<open>\<^verbatim>\<open>{ $set: cleanedJob }\<close> applied to a document\<close>
  "setFields d u =
     d\<lparr> title := title u, company := company u, location := location u,
        description := description u, source := source u, applyLink := applyLink u,
        externalId := externalId u, tags := tags u, postedAt := postedAt u \<rparr>"

fun updateFirst :: "(job \<Rightarrow> bool) \<Rightarrow> job \<Rightarrow> job list \<Rightarrow> job list" where
  "updateFirst P u [] = []"
| "updateFirst P u (d # ds) = (if P d then setFields d u # ds else d # updateFirst P u ds)"

definition updateOne ::
  "env \<Rightarrow> string option \<Rightarrow> job \<Rightarrow> world \<Rightarrow> (exn + update_result) \<times> world" where
  \<comment> \<open>Modelled from the spec: the persistence collaborator, which is not code of the
      repository (section 6: upsert by \<^verbatim>\<open>externalId\<close>, reporting an insert or a match).
      \<^verbatim>\<open>Job.updateOne({externalId: x}, {$set: u}, {upsert: true})\<close> updates the first
      document whose \<^verbatim>\<open>externalId\<close> is \<open>x\<close>, inserts \<open>u\<close> when there is none, and may
      reject, leaving the collection as it was.\<close>
  "updateOne e x u w =
     (let n = length (filter isUpdateOne (trace w));
          w1 = w\<lparr>trace := trace w @ [UpdateOne u]\<rparr>
      in case updateOneError e n of
           Some m \<Rightarrow> (Inl (Error m), w1)
         | None \<Rightarrow>
             (if \<exists>d \<in> set (store w). externalId d = x
              then (Inr \<lparr>upsertedCount = 0, matchedCount = 1\<rparr>,
                    w1\<lparr>store := updateFirst (\<lambda>d. externalId d = x) u (store w)\<rparr>)
              else (Inr \<lparr>upsertedCount = 1, matchedCount = 0\<rparr>,
                    w1\<lparr>store := store w @ [u]\<rparr>)))"

subsection \<open>The derived classes: constructors and cleanJobData\<close>

definition emptyConfig :: config where
  "emptyConfig =
     \<lparr> c_baseUrl = None, c_source = None, c_timeout = None, c_maxRetries = None,
       c_delayBetweenRequests = None, c_userAgent = None, c_jobsPerPage = None \<rparr>"

definition orElse :: "'a option \<Rightarrow> 'a option \<Rightarrow> 'a option" where
  "orElse a b = (case a of Some v \<Rightarrow> Some v | None \<Rightarrow> b)"

definition spread :: "config \<Rightarrow> config \<Rightarrow> config" where
  \<comment> \<open>\<^verbatim>\<open>{ ...a, ...b }\<close>: every property \<open>b\<close> has overrides the one of \<open>a\<close>\<close>
  "spread a b =
     \<lparr> c_baseUrl = orElse (c_baseUrl b) (c_baseUrl a),
       c_source = orElse (c_source b) (c_source a),
       c_timeout = orElse (c_timeout b) (c_timeout a),
       c_maxRetries = orElse (c_maxRetries b) (c_maxRetries a),
       c_delayBetweenRequests = orElse (c_delayBetweenRequests b) (c_delayBetweenRequests a),
       c_userAgent = orElse (c_userAgent b) (c_userAgent a),
       c_jobsPerPage = orElse (c_jobsPerPage b) (c_jobsPerPage a) \<rparr>"

definition newOficinaDeTrabajoCeiScraper :: "config \<Rightarrow> scraper" where
  "newOficinaDeTrabajoCeiScraper cfg =
     (JobPortalScraper OficinaDeTrabajoCeiScraper
        (spread
           \<lparr> c_baseUrl = Some (if truthy (c_baseUrl cfg) then the (c_baseUrl cfg)
                                else ''https://www.oficinaempleo.cl''),
             c_source = Some ''Oficina de Trabajo CEI'',
             c_timeout = Some (if truthyNum (c_timeout cfg) then the (c_timeout cfg) else 15000),
             c_maxRetries =
               Some (if truthyNum (c_maxRetries cfg) then the (c_maxRetries cfg) else 3),
             c_delayBetweenRequests =
               Some (if truthyNum (c_delayBetweenRequests cfg)
                     then the (c_delayBetweenRequests cfg) else 2000),
             c_userAgent = None, c_jobsPerPage = None \<rparr>
           cfg))
     \<lparr> searchEndpoint := ''/buscar-empleo'',
       jobsPerPage := Some (if truthyNum (c_jobsPerPage cfg) then the (c_jobsPerPage cfg) else 20) \<rparr>"

definition newLinkedInJobsScraper :: "config \<Rightarrow> scraper" where
  "newLinkedInJobsScraper cfg =
     (JobPortalScraper LinkedInJobsScraper
        (spread
           \<lparr> c_baseUrl = Some (if truthy (c_baseUrl cfg) then the (c_baseUrl cfg)
                                else ''https://www.linkedin.com''),
             c_source = Some ''LinkedIn Jobs'',
             c_timeout = Some (if truthyNum (c_timeout cfg) then the (c_timeout cfg) else 20000),
             c_maxRetries =
               Some (if truthyNum (c_maxRetries cfg) then the (c_maxRetries cfg) else 2),
             c_delayBetweenRequests =
               Some (if truthyNum (c_delayBetweenRequests cfg)
                     then the (c_delayBetweenRequests cfg) else 3000),
             c_userAgent = None, c_jobsPerPage = None \<rparr>
           cfg))
     \<lparr> searchEndpoint := ''/jobs/search'' \<rparr>"

fun newInstance :: "scraper_class \<Rightarrow> config arg \<Rightarrow> exn + scraper" where
  \<comment> \<open>\<^verbatim>\<open>new ScraperClass(config)\<close> with the default \<^verbatim>\<open>config = {}\<close>; reading a property of
      \<^verbatim>\<open>null\<close> is a TypeError\<close>
  "newInstance k Null = Inl (TypeError ''Cannot read properties of null (reading 'baseUrl')'')"
| "newInstance OficinaDeTrabajoCeiScraper Undefined = Inr (newOficinaDeTrabajoCeiScraper emptyConfig)"
| "newInstance OficinaDeTrabajoCeiScraper (Obj cfg) = Inr (newOficinaDeTrabajoCeiScraper cfg)"
| "newInstance LinkedInJobsScraper Undefined = Inr (newLinkedInJobsScraper emptyConfig)"
| "newInstance LinkedInJobsScraper (Obj cfg) = Inr (newLinkedInJobsScraper cfg)"

definition cleanJobData :: "env \<Rightarrow> scraper \<Rightarrow> job \<Rightarrow> nat \<Rightarrow> job \<times> nat" where
  \<comment> \<open>\<^verbatim>\<open>this.cleanJobData(job)\<close>: OficinaDeTrabajoCeiScraper overrides the method and
      strips two phrases from a description that is not empty\<close>
  "cleanJobData e this j k =
     (case cls this of
        LinkedInJobsScraper \<Rightarrow> baseCleanJobData e this j k
      | OficinaDeTrabajoCeiScraper \<Rightarrow>
          (let (cleaned, k1) = baseCleanJobData e this j k
           in if truthy (description cleaned)
              then (cleaned\<lparr>description :=
                      Some (trim (replaceAll (LitI ''Aplicar ahora'') []
                                    (replaceAll (LitI ''Compartir en redes sociales'') []
                                       (the (description cleaned)))))\<rparr>, k1)
              else (cleaned, k1)))"

subsection \<open>saveJobs\<close>

fun saveLoop ::
  "env \<Rightarrow> job list \<Rightarrow> nat \<Rightarrow> nat \<Rightarrow> nat \<Rightarrow> scraper \<Rightarrow> world \<Rightarrow> (nat \<times> nat \<times> nat) \<times> scraper \<times> world"
  where
  \<comment> \<open>the \<^verbatim>\<open>for (const job of jobsToSave)\<close> loop with its counters\<close>
  "saveLoop e [] nsaved nfailed nduplicates this w = ((nsaved, nfailed, nduplicates), this, w)"
| "saveLoop e (j # js) nsaved nfailed nduplicates this w =
     (let (cleanedJob, k) = cleanJobData e this j (ticks w);
          w1 = w\<lparr>ticks := k\<rparr>
      in if \<not> validateJobData cleanedJob
         then saveLoop e js nsaved (nfailed + 1) nduplicates this w1
         else (case updateOne e (externalId cleanedJob) cleanedJob w1 of
                 (Inr result, w2) \<Rightarrow>
                   (if upsertedCount result > 0
                    then saveLoop e js (nsaved + 1) nfailed nduplicates this w2
                    else if matchedCount result > 0
                    then saveLoop e js nsaved nfailed (nduplicates + 1) this w2
                    else saveLoop e js nsaved nfailed nduplicates this w2)
               | (Inl err, w2) \<Rightarrow>
                   saveLoop e js nsaved (nfailed + 1) nduplicates
                     (this\<lparr>errors := errors this @ [SaveError j (message err)]\<rparr>) w2))"

definition saveJobs ::
  "env \<Rightarrow> scraper \<Rightarrow> job list option \<Rightarrow> world \<Rightarrow> stats \<times> scraper \<times> world" where
  \<comment> \<open>\<^verbatim>\<open>saveJobs(jobs = null)\<close>; the early return has no \<^verbatim>\<open>total\<close> property\<close>
  "saveJobs e this js w =
     (let jobsToSave = (case js of Some l \<Rightarrow> l | None \<Rightarrow> jobs this)
      in if length jobsToSave = 0
         then (\<lparr>saved = 0, duplicates = 0, failed = 0, total = None\<rparr>, this, w)
         else (case saveLoop e jobsToSave 0 0 0 this w of
                 ((nsaved, nfailed, nduplicates), this1, w1) \<Rightarrow>
                   (\<lparr>saved = nsaved, duplicates = nduplicates, failed = nfailed,
                     total = Some (length jobsToSave)\<rparr>, this1, w1)))"


definition reset :: "scraper \<Rightarrow> scraper" where
  "reset this = this\<lparr>jobs := [], errors := []\<rparr>"

definition extractText :: "string \<Rightarrow> string" where
  \<comment> \<open>\<^verbatim>\<open>element.text().trim()\<close>, from the text of the selection\<close>
  "extractText selected = trim selected"

fun joinWith :: "string \<Rightarrow> string list \<Rightarrow> string" where
  \<comment> \<open>\<^verbatim>\<open>parts.join(sep)\<close>\<close>
  "joinWith sep [] = []"
| "joinWith sep [x] = x"
| "joinWith sep (x # xs) = x @ sep @ joinWith sep xs"

definition withParams :: "env \<Rightarrow> string \<Rightarrow> (string \<times> string) list \<Rightarrow> string" where
  \<comment> \<open>\<^verbatim>\<open>url.toString()\<close> after the parameters were appended to a URL without a query\<close>
  "withParams e u ps =
     (if ps = [] then u
      else u @ ''?'' @ joinWith ''&'' (map (\<lambda>(n, v). encode e n @ ''='' @ encode e v) ps))"

section \<open>OficinaDeTrabajoCeiScraper\<close>

definition daysAgoPattern :: rx where
  \<comment> \<open>\<^verbatim>\<open>/(\d+)\s*(day|dia|days|dias)\s*ago|hace/i\<close>, where the source has an accented i (code unit 237) in the second and fourth word\<close>
  "daysAgoPattern =
     Alt (Seqs [Cap 1 (Plus Digit), Star Space,
                Cap 2 (Alts [LitI ''day'', LitI [CHR ''d'', CHR 0xED, CHR ''a''], LitI ''days'',
                             LitI [CHR ''d'', CHR 0xED, CHR ''a'', CHR ''s'']]),
                Star Space, LitI ''ago''])
         (LitI ''hace'')"

definition extractPostedDate :: "env \<Rightarrow> element \<Rightarrow> nat \<Rightarrow> jsdate \<times> nat" where
  "extractPostedDate e el k =
     (let dateText = extractText (el_dateText el)
      in if dateText = [] then newDate e k
         else (case matchFrom daysAgoPattern dateText of
                 Some daysAgoMatch \<Rightarrow>
                   (let daysAgo = parseInt (group daysAgoMatch 1);
                        (date, k1) = newDate e k
                    in (setDateBack date daysAgo, k1))
               | None \<Rightarrow>
                   (case dateParse e dateText of
                      Some t \<Rightarrow> (Date t, k)
                    | None \<Rightarrow> newDate e k)))"

definition oficinaExtractTags :: "element \<Rightarrow> string list" where
  "oficinaExtractTags el =
     filter (\<lambda>t. t \<noteq> [])
       (filter (\<lambda>t. t \<noteq> []) (map trim (el_tagTexts el))
        @ (if truthy (el_dataType el) then [the (el_dataType el)] else []))"

definition urlIdPattern :: rx where
  \<comment> \<open>\<^verbatim>\<open>/\/job\/(\d+)|\/id\/(\d+)|id=(\d+)/\<close>\<close>
  "urlIdPattern =
     Alts [Seq (Lit ''/job/'') (Cap 1 (Plus Digit)),
           Seq (Lit ''/id/'') (Cap 2 (Plus Digit)),
           Seq (Lit ''id='') (Cap 3 (Plus Digit))]"

definition createExternalId ::
  "env \<Rightarrow> scraper \<Rightarrow> string \<Rightarrow> string \<Rightarrow> string \<Rightarrow> nat \<Rightarrow> string \<times> nat" where
  "createExternalId e this ttl cname url k =
     (case matchFrom urlIdPattern url of
        Some urlMatch \<Rightarrow>
          (let ident = (if truthy (group urlMatch 1) then group urlMatch 1
                        else if truthy (group urlMatch 2) then group urlMatch 2
                        else group urlMatch 3)
           in (replaceAll (Plus Space) ''-'' (toLowerCase (s_source this)) @ ''-''
                 @ (case ident of Some i \<Rightarrow> i | None \<Rightarrow> ''undefined''), k))
      | None \<Rightarrow>
          generateExternalId e this
            \<lparr> title = Some ttl, company = Some cname, location = None, description = None,
              source = None, applyLink = None, externalId = None, tags = None,
              postedAt = None \<rparr> k)"

definition resolveLink :: "env \<Rightarrow> scraper \<Rightarrow> string \<Rightarrow> exn + string" where
  \<comment> \<open>the handling of relative URLs in extractJobData\<close>
  "resolveLink e this link =
     (if link \<noteq> [] \<and> \<not> startsWith link ''http''
      then (case newURL e link (baseUrl this) of
              None \<Rightarrow> Inl (TypeError ''Invalid URL'')
            | Some u \<Rightarrow> Inr u)
      else Inr link)"

definition oficinaExtractJobData :: "env \<Rightarrow> scraper \<Rightarrow> element \<Rightarrow> nat \<Rightarrow> (exn + job) \<times> nat" where
  "oficinaExtractJobData e this el k =
     (let ttl = extractText (el_title el);
          cname = extractText (el_company el);
          loc = extractText (el_location el);
          descr = extractText (el_description el)
      in case resolveLink e this (el_href el) of
           Inl x \<Rightarrow> (Inl x, k)
         | Inr link \<Rightarrow>
             (let tgs = oficinaExtractTags el;
                  (postedDate, k1) = extractPostedDate e el k;
                  (eid, k2) = createExternalId e this ttl cname link k1
              in (Inr \<lparr> title = Some ttl, company = Some cname, location = Some loc,
                        description = Some descr, source = Some (s_source this),
                        applyLink = Some (if link \<noteq> [] then link else baseUrl this),
                        externalId = Some eid, tags = Some tgs,
                        postedAt = Some postedDate \<rparr>, k2)))"

fun oficinaExtractEach ::
  "env \<Rightarrow> element list \<Rightarrow> nat \<Rightarrow> job list \<Rightarrow> scraper \<Rightarrow> nat \<Rightarrow> job list \<times> scraper \<times> nat" where
  \<comment> \<open>\<^verbatim>\<open>jobElements.each((index, element) => ...)\<close>, from index \<open>index\<close> on\<close>
  "oficinaExtractEach e [] index acc this k = (acc, this, k)"
| "oficinaExtractEach e (el # els) index acc this k =
     (case oficinaExtractJobData e this el k of
        (Inr j, k1) \<Rightarrow>
          oficinaExtractEach e els (index + 1)
            (if truthy (title j) \<and> truthy (company j) then acc @ [j] else acc) this k1
      | (Inl x, k1) \<Rightarrow>
          oficinaExtractEach e els (index + 1) acc
            (this\<lparr>errors := errors this @ [ExtractError index (message x)]\<rparr>) k1)"

definition oficinaExtractJobsFromPage ::
  "env \<Rightarrow> scraper \<Rightarrow> string \<Rightarrow> nat \<Rightarrow> job list \<times> scraper \<times> nat" where
  "oficinaExtractJobsFromPage e this body k =
     oficinaExtractEach e (select e OficinaDeTrabajoCeiScraper body) 0 [] this k"

definition oficinaBuildSearchUrl ::
  "env \<Rightarrow> scraper \<Rightarrow> string \<Rightarrow> string \<Rightarrow> int \<Rightarrow> exn + string" where
  "oficinaBuildSearchUrl e this query loc page =
     (case newURL e (searchEndpoint this) (baseUrl this) of
        None \<Rightarrow> Inl (TypeError ''Invalid URL'')
      | Some u \<Rightarrow>
          Inr (withParams e u
                 ((if query \<noteq> [] then [(''q'', query)] else [])
                  @ (if loc \<noteq> [] then [(''location'', loc)] else [])
                  @ (if page > 1 then [(''page'', showInt page)] else []))))"

text \<open>
  The page loop of scrape, from page \<open>page\<close> on. The first component of the result is the
  error that left the loop, if one did.
\<close>

function oficinaPages ::
  "env \<Rightarrow> string \<Rightarrow> string \<Rightarrow> int \<Rightarrow> int \<Rightarrow> scraper \<Rightarrow> world \<Rightarrow> exn option \<times> scraper \<times> world"
  where
  "oficinaPages e query loc maxPages page this w =
     (if page \<le> maxPages then
        (case oficinaBuildSearchUrl e this query loc page of
           Inl x \<Rightarrow> (Some x, this, w)
         | Inr url \<Rightarrow>
             (case fetchAndParse e this url w of
                (Inl x, w1) \<Rightarrow> (Some x, this, w1)
              | (Inr body, w1) \<Rightarrow>
                  (case oficinaExtractJobsFromPage e this body (ticks w1) of
                     (pageJobs, this1, k) \<Rightarrow>
                       (if length pageJobs = 0 then (None, this1, w1\<lparr>ticks := k\<rparr>)
                        else oficinaPages e query loc maxPages (page + 1)
                               (this1\<lparr>jobs := jobs this1 @ pageJobs\<rparr>)
                               (if page < maxPages
                                then delay (delayBetweenRequests this1) (w1\<lparr>ticks := k\<rparr>)
                                else w1\<lparr>ticks := k\<rparr>)))))
      else (None, this, w))"
  by pat_completeness auto
termination
  by (relation "measure (\<lambda>(e, query, loc, maxPages, page, this, w). nat (maxPages + 1 - page))")
     auto

definition zeroStats :: stats where
  "zeroStats = \<lparr>saved = 0, duplicates = 0, failed = 0, total = Some 0\<rparr>"

definition finishScrape ::
  "env \<Rightarrow> exn option \<times> scraper \<times> world \<Rightarrow> scrape_result \<times> scraper \<times> world" where
  \<comment> \<open>what both scrape methods do once the page loop is left: save and report, or, in the
      \<^verbatim>\<open>catch\<close> block, record the error and report the run as failed\<close>
  "finishScrape e r =
     (case r of
        (None, this, w) \<Rightarrow>
          (case saveJobs e this None w of
             (results, this1, w1) \<Rightarrow>
               (\<lparr>r_success = True, r_jobs = jobs this1, r_stats = results,
                 r_errors = errors this1\<rparr>, this1, w1))
      | (Some x, this, w) \<Rightarrow>
          (let this1 = this\<lparr>errors := errors this @ [ScrapeError (message x)]\<rparr>
           in (\<lparr>r_success = False, r_jobs = jobs this1, r_stats = zeroStats,
                r_errors = errors this1\<rparr>, this1, w)))"

definition emptyOptions :: options where
  "emptyOptions = \<lparr>o_query = None, o_location = None, o_maxPages = None, o_config = Undefined\<rparr>"

definition orDefault :: "'a option \<Rightarrow> 'a \<Rightarrow> 'a" where
  \<comment> \<open>a destructuring default\<close>
  "orDefault v d = (case v of Some x \<Rightarrow> x | None \<Rightarrow> d)"

definition oficinaScrape ::
  "env \<Rightarrow> scraper \<Rightarrow> options arg \<Rightarrow> world \<Rightarrow> (exn + scrape_result) \<times> scraper \<times> world" where
  \<comment> \<open>\<^verbatim>\<open>scrape(options = {})\<close>; destructuring \<^verbatim>\<open>null\<close> is a TypeError raised before the
      \<^verbatim>\<open>try\<close> block\<close>
  "oficinaScrape e this options w =
     (case (case options of Undefined \<Rightarrow> Obj emptyOptions | a \<Rightarrow> a) of
        Obj opts \<Rightarrow>
          (case finishScrape e
                  (oficinaPages e (orDefault (o_query opts) []) (orDefault (o_location opts) [])
                     (orDefault (o_maxPages opts) 1) 1 (reset this) w) of
             (result, this1, w1) \<Rightarrow> (Inr result, this1, w1))
      | _ \<Rightarrow>
          (Inl (TypeError ''Cannot destructure property 'query' of 'options' as it is null.''),
           this, w))"


section \<open>LinkedInJobsScraper\<close>

definition agoPattern :: "string \<Rightarrow> rx" where
  \<comment> \<open>\<^verbatim>\<open>/(\d+)\s*unit/i\<close> for the unit \<^verbatim>\<open>hour\<close>, \<^verbatim>\<open>day\<close>, \<^verbatim>\<open>week\<close> or \<^verbatim>\<open>month\<close>\<close>
  "agoPattern unit = Seqs [Cap 1 (Plus Digit), Star Space, LitI unit]"

definition parsePostedDate :: "env \<Rightarrow> string \<Rightarrow> nat \<Rightarrow> jsdate \<times> nat" where
  "parsePostedDate e dateText k =
     (if dateText = [] then newDate e k
      else (let (today, k1) = newDate e k
            in case matchFrom (agoPattern ''hour'') dateText of
                 Some hoursMatch \<Rightarrow> (setHoursBack today (parseInt (group hoursMatch 1)), k1)
               | None \<Rightarrow>
            (case matchFrom (agoPattern ''day'') dateText of
                 Some daysMatch \<Rightarrow> (setDateBack today (parseInt (group daysMatch 1)), k1)
               | None \<Rightarrow>
            (case matchFrom (agoPattern ''week'') dateText of
                 Some weeksMatch \<Rightarrow>
                   (setDateBack today (map_option (\<lambda>n. n * 7) (parseInt (group weeksMatch 1))), k1)
               | None \<Rightarrow>
            (case matchFrom (agoPattern ''month'') dateText of
                 Some monthsMatch \<Rightarrow>
                   (case (today, parseInt (group monthsMatch 1)) of
                      (Date t, Some n) \<Rightarrow> (timeClip (monthsBack e t n), k1)
                    | _ \<Rightarrow> (InvalidDate, k1))
               | None \<Rightarrow> (today, k1))))))"

definition linkedInExtractTags :: "element \<Rightarrow> string list" where
  "linkedInExtractTags el = filter (\<lambda>t. t \<noteq> []) (map trim (el_tagTexts el))"

definition jobViewPattern :: rx where
  \<comment> \<open>\<^verbatim>\<open>/\/jobs\/view\/(\d+)/\<close>\<close>
  "jobViewPattern = Seq (Lit ''/jobs/view/'') (Cap 1 (Plus Digit))"

definition linkedInExtractJobData :: "env \<Rightarrow> scraper \<Rightarrow> element \<Rightarrow> nat \<Rightarrow> (exn + job) \<times> nat" where
  "linkedInExtractJobData e this el k =
     (let ttl = extractText (el_title el);
          cname = extractText (el_company el);
          loc = extractText (el_location el)
      in case resolveLink e this (el_href el) of
           Inl x \<Rightarrow> (Inl x, k)
         | Inr link \<Rightarrow>
             (let jobId = (case matchFrom jobViewPattern link of
                             Some jobIdMatch \<Rightarrow> group jobIdMatch 1
                           | None \<Rightarrow> None);
                  metadata = extractText (el_dateText el);
                  (eid, k1) = (if truthy jobId then (''linkedin-'' @ the jobId, k)
                               else generateExternalId e this
                                      \<lparr> title = Some ttl, company = Some cname, location = None,
                                        description = None, source = None, applyLink = None,
                                        externalId = None, tags = None, postedAt = None \<rparr> k);
                  tgs = linkedInExtractTags el;
                  (posted, k2) = parsePostedDate e metadata k1
              in (Inr \<lparr> title = Some ttl, company = Some cname, location = Some loc,
                        description = Some (''Posted '' @ metadata),
                        source = Some (s_source this),
                        applyLink = Some (if link \<noteq> [] then link else baseUrl this),
                        externalId = Some eid, tags = Some tgs,
                        postedAt = Some posted \<rparr>, k2)))"

fun linkedInExtractEach ::
  "env \<Rightarrow> element list \<Rightarrow> nat \<Rightarrow> job list \<Rightarrow> scraper \<Rightarrow> nat \<Rightarrow> job list \<times> scraper \<times> nat" where
  \<comment> \<open>\<^verbatim>\<open>jobCards.each((index, element) => ...)\<close>; an element that throws is only logged\<close>
  "linkedInExtractEach e [] index acc this k = (acc, this, k)"
| "linkedInExtractEach e (el # els) index acc this k =
     (case linkedInExtractJobData e this el k of
        (Inr j, k1) \<Rightarrow>
          linkedInExtractEach e els (index + 1)
            (if truthy (title j) \<and> truthy (company j) then acc @ [j] else acc) this k1
      | (Inl x, k1) \<Rightarrow> linkedInExtractEach e els (index + 1) acc this k1)"

definition linkedInExtractJobsFromPage ::
  "env \<Rightarrow> scraper \<Rightarrow> string \<Rightarrow> nat \<Rightarrow> job list \<times> scraper \<times> nat" where
  "linkedInExtractJobsFromPage e this body k =
     linkedInExtractEach e (select e LinkedInJobsScraper body) 0 [] this k"

definition linkedInBuildSearchUrl ::
  "env \<Rightarrow> scraper \<Rightarrow> string \<Rightarrow> string \<Rightarrow> int \<Rightarrow> exn + string" where
  "linkedInBuildSearchUrl e this query loc start =
     (case newURL e (searchEndpoint this) (baseUrl this) of
        None \<Rightarrow> Inl (TypeError ''Invalid URL'')
      | Some u \<Rightarrow>
          Inr (withParams e u
                 ((if query \<noteq> [] then [(''keywords'', query)] else [])
                  @ (if loc \<noteq> [] then [(''location'', loc)] else [])
                  @ (if start > 0 then [(''start'', showInt start)] else [])
                  @ [(''f_TPR'', ''r604800''), (''position'', ''1''), (''pageNum'', ''0'')])))"

function linkedInPages ::
  "env \<Rightarrow> string \<Rightarrow> string \<Rightarrow> int \<Rightarrow> int \<Rightarrow> scraper \<Rightarrow> world \<Rightarrow> exn option \<times> scraper \<times> world"
  where
  "linkedInPages e query loc maxPages page this w =
     (if page < maxPages then
        (case linkedInBuildSearchUrl e this query loc (page * 25) of
           Inl x \<Rightarrow> (Some x, this, w)
         | Inr url \<Rightarrow>
             (case fetchAndParse e this url w of
                (Inl x, w1) \<Rightarrow> (Some x, this, w1)
              | (Inr body, w1) \<Rightarrow>
                  (case linkedInExtractJobsFromPage e this body (ticks w1) of
                     (pageJobs, this1, k) \<Rightarrow>
                       (if length pageJobs = 0 then (None, this1, w1\<lparr>ticks := k\<rparr>)
                        else linkedInPages e query loc maxPages (page + 1)
                               (this1\<lparr>jobs := jobs this1 @ pageJobs\<rparr>)
                               (if page < maxPages - 1
                                then delay (delayBetweenRequests this1) (w1\<lparr>ticks := k\<rparr>)
                                else w1\<lparr>ticks := k\<rparr>)))))
      else (None, this, w))"
  by pat_completeness auto
termination
  by (relation "measure (\<lambda>(e, query, loc, maxPages, page, this, w). nat (maxPages - page))")
     auto

definition linkedInScrape ::
  "env \<Rightarrow> scraper \<Rightarrow> options arg \<Rightarrow> world \<Rightarrow> (exn + scrape_result) \<times> scraper \<times> world" where
  "linkedInScrape e this options w =
     (case (case options of Undefined \<Rightarrow> Obj emptyOptions | a \<Rightarrow> a) of
        Obj opts \<Rightarrow>
          (case finishScrape e
                  (linkedInPages e (orDefault (o_query opts) []) (orDefault (o_location opts) [])
                     (orDefault (o_maxPages opts) 1) 0 (reset this) w) of
             (result, this1, w1) \<Rightarrow> (Inr result, this1, w1))
      | _ \<Rightarrow>
          (Inl (TypeError ''Cannot destructure property 'query' of 'options' as it is null.''),
           this, w))"

definition scrape ::
  "env \<Rightarrow> scraper \<Rightarrow> options arg \<Rightarrow> world \<Rightarrow> (exn + scrape_result) \<times> scraper \<times> world" where
  \<comment> \<open>\<^verbatim>\<open>scraper.scrape(options)\<close>, dispatched on the class of the instance\<close>
  "scrape e this options w =
     (case cls this of
        OficinaDeTrabajoCeiScraper \<Rightarrow> oficinaScrape e this options w
      | LinkedInJobsScraper \<Rightarrow> linkedInScrape e this options w)"

section \<open>The registry (scraperRegistry.js)\<close>

text \<open>The registry's Map from names to classes, in insertion order.\<close>

type_synonym registry = "(string \<times> scraper_class) list"

fun mapSet :: "'k \<Rightarrow> 'v \<Rightarrow> ('k \<times> 'v) list \<Rightarrow> ('k \<times> 'v) list" where
  \<comment> \<open>\<^verbatim>\<open>map.set(key, value)\<close>\<close>
  "mapSet k v [] = [(k, v)]"
| "mapSet k v ((k', v') # m) = (if k' = k then (k, v) # m else (k', v') # mapSet k v m)"

definition mapDelete :: "'k \<Rightarrow> ('k \<times> 'v) list \<Rightarrow> ('k \<times> 'v) list" where
  \<comment> \<open>\<^verbatim>\<open>map.delete(key)\<close>\<close>
  "mapDelete k m = filter (\<lambda>p. fst p \<noteq> k) m"

definition register :: "string \<Rightarrow> scraper_class \<Rightarrow> registry \<Rightarrow> registry" where
  "register name k reg = mapSet name k reg"

definition registerDefaultScrapers :: "registry \<Rightarrow> registry" where
  "registerDefaultScrapers reg =
     register ''linkedin'' LinkedInJobsScraper
       (register ''oficina-trabajo-cei'' OficinaDeTrabajoCeiScraper reg)"

definition scraperRegistry :: registry where
  \<comment> \<open>the singleton the module exports\<close>
  "scraperRegistry = registerDefaultScrapers []"

definition getAvailableScrapers :: "registry \<Rightarrow> string list" where
  "getAvailableScrapers reg = map fst reg"

definition getScraper ::
  "registry \<Rightarrow> string \<Rightarrow> config arg \<Rightarrow> world \<Rightarrow> (exn + nat) \<times> world" where
  \<comment> \<open>the result is the address of the instance that \<^verbatim>\<open>new\<close> allocates\<close>
  "getScraper reg name cfg w =
     (case map_of reg name of
        None \<Rightarrow>
          (Inl (Error (''Scraper not found: '' @ name @ ''. Available scrapers: ''
                       @ joinWith '', '' (getAvailableScrapers reg))), w)
      | Some ScraperClass \<Rightarrow>
          (case newInstance ScraperClass cfg of
             Inl x \<Rightarrow> (Inl x, w)
           | Inr obj \<Rightarrow> (Inr (length (heap w)), w\<lparr>heap := heap w @ [obj]\<rparr>)))"


section \<open>The service (scraperService.js)\<close>

record active_info =
  a_scraperName :: string
  a_startTime :: jsdate
  a_status :: string

text \<open>
  An entry of the history. A failed run's entry has an \<^verbatim>\<open>error\<close> and neither \<^verbatim>\<open>stats\<close>
  nor \<^verbatim>\<open>errorCount\<close>; a completed run's entry has no \<^verbatim>\<open>error\<close>.
\<close>

record history_entry =
  h_id :: string
  h_scraperName :: string
  h_startTime :: jsdate
  h_endTime :: jsdate
  h_duration :: int
  h_success :: bool
  h_stats :: "stats option"
  h_errorCount :: "nat option"
  h_error :: "string option"

record service =
  activeScrapes :: "(string \<times> active_info) list"
  scrapeHistory :: "history_entry list"

definition newScraperService :: service where
  "newScraperService = \<lparr>activeScrapes = [], scrapeHistory = []\<rparr>"

text \<open>What runScraper returns: \<^verbatim>\<open>{ scrapeId, ...result, ...historyEntry }\<close>.\<close>

record run_result =
  rr_scrapeId :: string
  rr_result :: scrape_result
  rr_entry :: history_entry

definition generateScrapeId :: "env \<Rightarrow> string \<Rightarrow> world \<Rightarrow> string \<times> world" where
  "generateScrapeId e scraperName w =
     (let (timestamp, k) = now e (ticks w);
          rnd = random e (rolls w)
      in (scraperName @ ''-'' @ showInt timestamp @ ''-'' @ rnd,
          w\<lparr>ticks := k, rolls := Suc (rolls w)\<rparr>))"

definition runInstance ::
  "env \<Rightarrow> registry \<Rightarrow> string \<Rightarrow> options arg \<Rightarrow> world \<Rightarrow> (exn + scrape_result) \<times> world" where
  \<comment> \<open>the first two statements of the \<^verbatim>\<open>try\<close> block: \<^verbatim>\<open>getScraper(scraperName, options.config)\<close>
      and \<^verbatim>\<open>await scraper.scrape(options)\<close>, the instance living at its address\<close>
  "runInstance e reg scraperName options w =
     (case options of
        Obj opts \<Rightarrow>
          (case getScraper reg scraperName (o_config opts) w of
             (Inl x, w1) \<Rightarrow> (Inl x, w1)
           | (Inr a, w1) \<Rightarrow>
               (case scrape e (heap w1 ! a) options w1 of
                  (r, this1, w2) \<Rightarrow> (r, w2\<lparr>heap := (heap w2)[a := this1]\<rparr>)))
      | _ \<Rightarrow> (Inl (TypeError ''Cannot read properties of null (reading 'config')''), w))"

definition recordCompleted ::
  "env \<Rightarrow> string \<Rightarrow> string \<Rightarrow> scrape_result \<Rightarrow> service \<Rightarrow> nat \<Rightarrow> history_entry \<times> service \<times> nat"
  where
  \<comment> \<open>the rest of the \<^verbatim>\<open>try\<close> block: the run is deleted from the active map, then its
      start time is looked up there for the entry's \<^verbatim>\<open>startTime\<close> and \<^verbatim>\<open>duration\<close>, with
      \<^verbatim>\<open>new Date()\<close> and \<^verbatim>\<open>Date.now()\<close> as the fallbacks; the history is capped at 100\<close>
  "recordCompleted e scrapeId scraperName result svc k =
     (let active = mapDelete scrapeId (activeScrapes svc);
          (startT, k1) = (case map_of active scrapeId of
                            Some info \<Rightarrow> (a_startTime info, k)
                          | None \<Rightarrow> newDate e k);
          (endT, k2) = newDate e k1;
          (t1, k3) = now e k2;
          (t0, k4) = (case map_of active scrapeId of
                        Some info \<Rightarrow>
                          (case a_startTime info of
                             Date t \<Rightarrow> if t \<noteq> 0 then (t, k3) else now e k3
                           | InvalidDate \<Rightarrow> now e k3)
                      | None \<Rightarrow> now e k3);
          historyEntry =
            \<lparr> h_id = scrapeId, h_scraperName = scraperName, h_startTime = startT,
              h_endTime = endT, h_duration = t1 - t0, h_success = r_success result,
              h_stats = Some (r_stats result), h_errorCount = Some (length (r_errors result)),
              h_error = None \<rparr>;
          pushed = scrapeHistory svc @ [historyEntry]
      in (historyEntry,
          svc\<lparr> activeScrapes := active,
               scrapeHistory := (if length pushed > 100 then tl pushed else pushed) \<rparr>,
          k4))"

definition recordFailed ::
  "env \<Rightarrow> string \<Rightarrow> string \<Rightarrow> exn \<Rightarrow> service \<Rightarrow> nat \<Rightarrow> service \<times> nat" where
  \<comment> \<open>the \<^verbatim>\<open>catch\<close> block, before the error is thrown again\<close>
  "recordFailed e scrapeId scraperName x svc k =
     (let active = mapDelete scrapeId (activeScrapes svc);
          (startT, k1) = newDate e k;
          (endT, k2) = newDate e k1
      in (svc\<lparr> activeScrapes := active,
               scrapeHistory := scrapeHistory svc @
                 [\<lparr> h_id = scrapeId, h_scraperName = scraperName, h_startTime = startT,
                    h_endTime = endT, h_duration = 0, h_success = False, h_stats = None,
                    h_errorCount = None, h_error = Some (message x) \<rparr>] \<rparr>,
          k2))"

definition runScraper ::
  "env \<Rightarrow> registry \<Rightarrow> string \<Rightarrow> options arg \<Rightarrow> service \<Rightarrow> world
     \<Rightarrow> (exn + run_result) \<times> service \<times> world" where
  \<comment> \<open>\<^verbatim>\<open>runScraper(scraperName, options = {})\<close>\<close>
  "runScraper e reg scraperName optionsArg svc w =
     (let options = (case optionsArg of Undefined \<Rightarrow> Obj emptyOptions | a \<Rightarrow> a);
          (scrapeId, w1) = generateScrapeId e scraperName w;
          availableScrapers = getAvailableScrapers reg
      in if scraperName \<notin> set availableScrapers
         then (Inl (Error (''Unknown scraper: '' @ scraperName @ ''. Available: ''
                           @ joinWith '', '' availableScrapers)), svc, w1)
         else
           (let (startT, k) = newDate e (ticks w1);
                svc1 = svc\<lparr>activeScrapes :=
                         mapSet scrapeId
                           \<lparr>a_scraperName = scraperName, a_startTime = startT,
                            a_status = ''running''\<rparr> (activeScrapes svc)\<rparr>
            in case runInstance e reg scraperName options (w1\<lparr>ticks := k\<rparr>) of
                 (Inr result, w2) \<Rightarrow>
                   (case recordCompleted e scrapeId scraperName result svc1 (ticks w2) of
                      (historyEntry, svc2, k1) \<Rightarrow>
                        (Inr \<lparr>rr_scrapeId = scrapeId, rr_result = result,
                              rr_entry = historyEntry\<rparr>, svc2, w2\<lparr>ticks := k1\<rparr>))
               | (Inl x, w2) \<Rightarrow>
                   (case recordFailed e scrapeId scraperName x svc1 (ticks w2) of
                      (svc2, k1) \<Rightarrow> (Inl x, svc2, w2\<lparr>ticks := k1\<rparr>))))"

datatype slot = Ran run_result | Failed string string

fun runMultipleScrapersSequential ::
  "env \<Rightarrow> registry \<Rightarrow> (string \<times> options arg) list \<Rightarrow> service \<Rightarrow> world
     \<Rightarrow> slot list \<times> service \<times> world" where
  "runMultipleScrapersSequential e reg [] svc w = ([], svc, w)"
| "runMultipleScrapersSequential e reg ((name, options) # rest) svc w =
     (case runScraper e reg name options svc w of
        (r, svc1, w1) \<Rightarrow>
          (case runMultipleScrapersSequential e reg rest svc1 w1 of
             (results, svc2, w2) \<Rightarrow>
               ((case r of Inr result \<Rightarrow> Ran result | Inl x \<Rightarrow> Failed name (message x))
                # results, svc2, w2)))"

definition slice :: "'a list \<Rightarrow> int \<Rightarrow> 'a list" where
  \<comment> \<open>\<^verbatim>\<open>array.slice(start)\<close>: a negative start counts from the end\<close>
  "slice xs start =
     (let len = int (length xs);
          k = (if start < 0 then max (len + start) 0 else min start len)
      in drop (nat k) xs)"

definition getScrapeHistory :: "service \<Rightarrow> int option \<Rightarrow> history_entry list" where
  \<comment> \<open>\<^verbatim>\<open>getScrapeHistory(limit = 20)\<close>; \<open>None\<close> is an omitted argument\<close>
  "getScrapeHistory svc limitArg =
     (let limit = orDefault limitArg 20
      in rev (slice (scrapeHistory svc) (- limit)))"




definition clearHistory :: "service \<Rightarrow> service" where
  "clearHistory svc = svc\<lparr>scrapeHistory := []\<rparr>"


section \<open>Notions used in the statements\<close>

text \<open>
  The services a process can reach: the new one, and any that a call of runScraper (in
  whatever state the outside is) or of clearHistory leaves behind.
\<close>

inductive reachable :: "env \<Rightarrow> registry \<Rightarrow> service \<Rightarrow> bool"
  for e :: env and reg :: registry where
  created: "reachable e reg newScraperService"
| ran: "reachable e reg svc \<Longrightarrow> runScraper e reg name opts svc w = (r, svc', w')
        \<Longrightarrow> reachable e reg svc'"
| cleared: "reachable e reg svc \<Longrightarrow> reachable e reg (clearHistory svc)"


definition pageLoop :: "env \<Rightarrow> scraper \<Rightarrow> options \<Rightarrow> world \<Rightarrow> exn option \<times> scraper \<times> world" where
  \<comment> \<open>the page loop that scrape runs for an instance, by its class, after the reset\<close>
  "pageLoop e this opts w =
     (case cls this of
        OficinaDeTrabajoCeiScraper \<Rightarrow>
          oficinaPages e (orDefault (o_query opts) []) (orDefault (o_location opts) [])
            (orDefault (o_maxPages opts) 1) 1 (reset this) w
      | LinkedInJobsScraper \<Rightarrow>
          linkedInPages e (orDefault (o_query opts) []) (orDefault (o_location opts) [])
            (orDefault (o_maxPages opts) 1) 0 (reset this) w)"

definition untouched :: "world \<Rightarrow> world \<Rightarrow> bool" where
  \<comment> \<open>between two states the Job collection was neither changed nor called\<close>
  "untouched w w' =
     (store w' = store w \<and> filter isUpdateOne (trace w') = filter isUpdateOne (trace w))"

definition attemptEvents :: "scraper \<Rightarrow> string \<Rightarrow> int \<Rightarrow> event list" where
  \<comment> \<open>what attempt \<open>i\<close> of a fetch that fails does: the request, and the sleep unless it
      was the last attempt\<close>
  "attemptEvents this url i =
     (if i < maxRetries this then [Get url, Sleep (delayBetweenRequests this * i)]
      else [Get url])"

section \<open>Sample inputs\<close>

definition sampleEntry :: "string \<Rightarrow> history_entry" where
  \<comment> \<open>the entry of a failed run\<close>
  "sampleEntry i =
     \<lparr> h_id = i, h_scraperName = ''linkedin'', h_startTime = Date 0, h_endTime = Date 0,
       h_duration = 0, h_success = False, h_stats = None, h_errorCount = None,
       h_error = Some ''boom'' \<rparr>"

definition nullConfigOptions :: options where
  \<comment> \<open>the request body \<^verbatim>\<open>{"config": null}\<close>\<close>
  "nullConfigOptions =
     \<lparr>o_query = None, o_location = None, o_maxPages = None, o_config = Null\<rparr>"

definition quietEnv :: env where
  \<comment> \<open>a clock that advances by a millisecond between readings, a site whose pages hold
      no listing, a database that accepts every write\<close>
  "quietEnv =
     \<lparr> clock = (\<lambda>k. int k),
       random = (\<lambda>k. ''abcde''),
       axiosGet = (\<lambda>n url. Inr ''<html><body></body></html>''),
       select = (\<lambda>k body. []),
       newURL = (\<lambda>path base. Some (base @ path)),
       encode = (\<lambda>s. s),
       dateParse = (\<lambda>s. None),
       monthsBack = (\<lambda>t n. t - n * 2592000000),
       updateOneError = (\<lambda>n. None) \<rparr>"

definition world0 :: world where
  "world0 = \<lparr>ticks = 0, rolls = 0, trace = [], store = [], heap = []\<rparr>"


definition downEnv :: env where
  \<comment> \<open>the quiet environment with a site that refuses every request\<close>
  "downEnv = quietEnv\<lparr>axiosGet := (\<lambda>n url. Inl ''connect ECONNREFUSED'')\<rparr>"





definition onePage :: options where
  \<comment> \<open>\<^verbatim>\<open>{ query: 'test', maxPages: 1 }\<close>\<close>
  "onePage =
     \<lparr>o_query = Some ''test'', o_location = None, o_maxPages = Some 1, o_config = Undefined\<rparr>"




definition haceCincoDias :: string where
  \<comment> \<open>the text \<^verbatim>\<open>hace 5 dias\<close> with the accented i (code unit 237) of the Spanish word\<close>
  "haceCincoDias = ''hace 5 d'' @ [CHR 0xED] @ ''as''"

section \<open>Proof set-up\<close>

text \<open>The equations of the loops are unfolded by hand.\<close>

declare fetchPageFrom.simps [simp del]
declare oficinaPages.simps [simp del]
declare linkedInPages.simps [simp del]
declare showNat.simps [simp del]
declare replaceAll.simps [simp del]
declare matchFrom.simps [simp del]

section \<open>The history read back\<close>

text \<open>
  C10. For every limit of at least 1, getScrapeHistory(limit) returns the most recent
  min(limit, length of the history) entries, newest first (the history is appended to,
  so its reverse is newest first); for limit 0 it returns the whole history, newest first;
  with the argument omitted it behaves as with limit 20.
\<close>

theorem getScrapeHistory_recent:
  "(1 \<le> limit \<longrightarrow>
      getScrapeHistory svc (Some limit)
        = take (min (nat limit) (length (scrapeHistory svc))) (rev (scrapeHistory svc)))
   \<and> getScrapeHistory svc (Some 0) = rev (scrapeHistory svc)
   \<and> getScrapeHistory svc None = getScrapeHistory svc (Some 20)"
proof (intro conjI impI)
  assume pos: "1 \<le> limit"
  let ?h = "scrapeHistory svc"
  have k: "nat (max (int (length ?h) + - limit) 0) = length ?h - nat limit"
    using pos by auto
  have "rev (drop (length ?h - nat limit) ?h) = take (length ?h - (length ?h - nat limit)) (rev ?h)"
    by (simp only: rev_drop)
  moreover have "length ?h - (length ?h - nat limit) = min (nat limit) (length ?h)"
    by auto
  ultimately show "getScrapeHistory svc (Some limit) = take (min (nat limit) (length ?h)) (rev ?h)"
    using pos k by (simp add: getScrapeHistory_def slice_def orDefault_def Let_def)
next
  show "getScrapeHistory svc (Some 0) = rev (scrapeHistory svc)"
    by (simp add: getScrapeHistory_def slice_def orDefault_def)
next
  show "getScrapeHistory svc None = getScrapeHistory svc (Some 20)"
    by (simp add: getScrapeHistory_def orDefault_def)
qed

theorem getScrapeHistory_recent_witness:
  "(1::int) \<le> 2
   \<and> getScrapeHistory
         \<lparr>activeScrapes = [],
          scrapeHistory = [sampleEntry ''a'', sampleEntry ''b'', sampleEntry ''c'']\<rparr> (Some 2)
       = [sampleEntry ''c'', sampleEntry ''b'']"
  using getScrapeHistory_recent
    [of 2 "\<lparr>activeScrapes = [],
            scrapeHistory = [sampleEntry ''a'', sampleEntry ''b'', sampleEntry ''c'']\<rparr>"]
  by simp

section \<open>The history written\<close>

lemma scraperRegistry_eq:
  "scraperRegistry =
     [(''oficina-trabajo-cei'', OficinaDeTrabajoCeiScraper), (''linkedin'', LinkedInJobsScraper)]"
  by (simp add: scraperRegistry_def registerDefaultScrapers_def register_def)

lemma runInstance_null_config:
  "runInstance e scraperRegistry ''linkedin'' (Obj nullConfigOptions) w
     = (Inl (TypeError ''Cannot read properties of null (reading 'baseUrl')''), w)"
  by (simp add: runInstance_def getScraper_def scraperRegistry_eq nullConfigOptions_def)

lemma recordFailed_history:
  "scrapeHistory (fst (recordFailed e i n x svc k)) =
     scrapeHistory svc @
       [\<lparr> h_id = i, h_scraperName = n, h_startTime = Date (clock e k),
          h_endTime = Date (clock e (Suc k)), h_duration = 0, h_success = False,
          h_stats = None, h_errorCount = None, h_error = Some (message x) \<rparr>]"
  by (simp add: recordFailed_def newDate_def)

lemma runScraper_null_config_history:
  "length (scrapeHistory (fst (snd
      (runScraper e scraperRegistry ''linkedin'' (Obj nullConfigOptions) svc w))))
     = Suc (length (scrapeHistory svc))"
proof -
  have avail: "''linkedin'' \<in> set (getAvailableScrapers scraperRegistry)"
    by (simp add: getAvailableScrapers_def scraperRegistry_eq)
  show ?thesis
    using avail
    by (simp add: runScraper_def runInstance_null_config Let_def split_beta recordFailed_history)
qed

lemma runMultiple_null_config_history:
  "length (scrapeHistory (fst (snd (runMultipleScrapersSequential e scraperRegistry
        (replicate n (''linkedin'', Obj nullConfigOptions)) svc w))))
     = n + length (scrapeHistory svc)"
proof (induction n arbitrary: svc w)
  case 0
  show ?case by simp
next
  case (Suc n)
  obtain r svc1 w1 where
    run: "runScraper e scraperRegistry ''linkedin'' (Obj nullConfigOptions) svc w = (r, svc1, w1)"
    by (cases "runScraper e scraperRegistry ''linkedin'' (Obj nullConfigOptions) svc w") auto
  have len1: "length (scrapeHistory svc1) = Suc (length (scrapeHistory svc))"
    using runScraper_null_config_history [of e svc w] run by simp
  show ?case
    using Suc.IH [of svc1 w1] len1 run by (simp add: split_beta)
qed

lemma map_of_mapDelete: "map_of (mapDelete i m) i = None"
  by (induction m) (auto simp: mapDelete_def)

lemma recordCompleted_eq:
  "recordCompleted e i n result svc k =
     (let entry = \<lparr> h_id = i, h_scraperName = n, h_startTime = Date (clock e k),
            h_endTime = Date (clock e (Suc k)),
            h_duration = clock e (k + 2) - clock e (k + 3), h_success = r_success result,
            h_stats = Some (r_stats result), h_errorCount = Some (length (r_errors result)),
            h_error = None \<rparr>
      in (entry,
          svc\<lparr> activeScrapes := mapDelete i (activeScrapes svc),
               scrapeHistory := (if length (scrapeHistory svc) \<ge> 100
                                 then tl (scrapeHistory svc @ [entry])
                                 else scrapeHistory svc @ [entry]) \<rparr>,
          k + 4))"
  by (simp add: recordCompleted_def map_of_mapDelete newDate_def now_def Let_def numeral_eq_Suc)

text \<open>
  A run that completes appends its entry and, when the history then holds more than 100
  entries, drops the oldest one: the cap of the \<^verbatim>\<open>try\<close> block.
\<close>

lemma completed_run_keeps_capacity:
  assumes "runScraper e reg name opts svc w = (Inr res, svc', w')"
      and "length (scrapeHistory svc) \<le> 100"
  shows "length (scrapeHistory svc') \<le> 100
       \<and> scrapeHistory svc' =
           (if length (scrapeHistory svc) = 100 then tl (scrapeHistory svc) @ [rr_entry res]
            else scrapeHistory svc @ [rr_entry res])"
proof -
  have avail: "name \<in> set (getAvailableScrapers reg)"
    using assms(1) by (auto simp: runScraper_def Let_def split_beta split: if_splits)
  let ?opts = "case opts of Undefined \<Rightarrow> Obj emptyOptions | a \<Rightarrow> a"
  let ?w1 = "snd (generateScrapeId e name w)"
  obtain r2 w2 where
    ri: "runInstance e reg name ?opts (?w1\<lparr>ticks := Suc (ticks ?w1)\<rparr>) = (r2, w2)"
    by (cases "runInstance e reg name ?opts (?w1\<lparr>ticks := Suc (ticks ?w1)\<rparr>)") auto
  obtain result where r2: "r2 = Inr result"
    using assms(1) avail ri
    by (cases r2) (auto simp: runScraper_def Let_def split_beta newDate_def)
  have nonempty: "scrapeHistory svc \<noteq> []" if "length (scrapeHistory svc) = 100"
    using that by auto
  show ?thesis
    using assms avail ri r2 nonempty
    by (auto simp: runScraper_def Let_def split_beta newDate_def recordCompleted_eq)
qed

text \<open>
  C1. The claim is that the history never holds more than 100 entries, whatever runs
  complete or fail. The \<^verbatim>\<open>catch\<close> block of runScraper pushes its entry without the cap
  the \<^verbatim>\<open>try\<close> block applies: 101 runs of the registered LinkedIn scraper with the body
  \<^verbatim>\<open>{"config": null}\<close>, each failing in the constructor, leave 101 entries in the history
  of a new service, whatever the environment.
\<close>

theorem failed_runs_exceed_capacity:
  "length (scrapeHistory (fst (snd (runMultipleScrapersSequential e scraperRegistry
        (replicate 101 (''linkedin'', Obj nullConfigOptions)) newScraperService w)))) = 101"
  by (simp add: runMultiple_null_config_history newScraperService_def)

section \<open>The times of a history entry\<close>














section \<open>Instances\<close>

lemma newInstance_fresh:
  assumes "cfg \<noteq> Null"
  shows "\<exists>obj. newInstance k cfg = Inr obj"
  using assms by (cases k; cases cfg) simp_all

lemma newInstance_empty:
  assumes "newInstance k cfg = Inr obj"
  shows "jobs obj = [] \<and> errors obj = []"
  using assms
  by (cases k; cases cfg)
     (auto simp: newOficinaDeTrabajoCeiScraper_def newLinkedInJobsScraper_def
                 JobPortalScraper_def)

lemma getScraper_returns:
  assumes "getScraper reg name cfg w = (Inr a, w1)"
  shows "a = length (heap w) \<and> length (heap w1) = Suc (length (heap w))
       \<and> jobs (heap w1 ! a) = [] \<and> errors (heap w1 ! a) = []"
proof -
  obtain k where k: "map_of reg name = Some k"
    using assms by (cases "map_of reg name") (auto simp: getScraper_def)
  obtain obj where obj: "newInstance k cfg = Inr obj"
    using assms k by (cases "newInstance k cfg") (auto simp: getScraper_def)
  have "a = length (heap w)" and "heap w1 = heap w @ [obj]"
    using assms k obj by (auto simp: getScraper_def)
  then show ?thesis
    using newInstance_empty [OF obj] by simp
qed

text \<open>
  C9. For every registered name, a call of getScraper with a configuration that is an
  object or omitted returns an instance, and every call that returns an instance returns
  a new one whose jobs and errors are empty: its address is not one of an object that
  existed before the call, any later call returns another address, again of an instance
  with empty jobs and errors, and writing to either instance leaves the other as it is.
\<close>

theorem getScraper_fresh_instance:
  assumes "map_of reg name = Some k"
  shows "(cfg \<noteq> Null \<longrightarrow> (\<exists>a w1. getScraper reg name cfg w = (Inr a, w1)))
       \<and> (\<forall>a w1. getScraper reg name cfg w = (Inr a, w1) \<longrightarrow>
              length (heap w) \<le> a \<and> a < length (heap w1)
            \<and> jobs (heap w1 ! a) = [] \<and> errors (heap w1 ! a) = []
            \<and> (\<forall>name' cfg' w' b w2.
                  length (heap w1) \<le> length (heap w') \<longrightarrow>
                  getScraper reg name' cfg' w' = (Inr b, w2) \<longrightarrow>
                    a \<noteq> b
                  \<and> jobs (heap w2 ! b) = [] \<and> errors (heap w2 ! b) = []
                  \<and> (\<forall>obj. (heap w2)[a := obj] ! b = heap w2 ! b)
                  \<and> (\<forall>obj. (heap w2)[b := obj] ! a = heap w2 ! a)))"
proof (intro conjI impI allI)
  assume "cfg \<noteq> Null"
  then obtain obj where "newInstance k cfg = Inr obj"
    using newInstance_fresh by blast
  then show "\<exists>a w1. getScraper reg name cfg w = (Inr a, w1)"
    using assms by (simp add: getScraper_def)
next
  fix a w1
  assume first: "getScraper reg name cfg w = (Inr a, w1)"
  note r1 = getScraper_returns [OF first]
  show "length (heap w) \<le> a" and "a < length (heap w1)"
    using r1 by simp_all
  show "jobs (heap w1 ! a) = []" and "errors (heap w1 ! a) = []"
    using r1 by blast+
  fix name' cfg' w' b w2
  assume later: "length (heap w1) \<le> length (heap w')"
    and second: "getScraper reg name' cfg' w' = (Inr b, w2)"
  note r2 = getScraper_returns [OF second]
  show ne: "a \<noteq> b"
    using r1 r2 later by simp
  show "jobs (heap w2 ! b) = []" and "errors (heap w2 ! b) = []"
    using r2 by blast+
  show "(heap w2)[a := obj] ! b = heap w2 ! b" and "(heap w2)[b := obj] ! a = heap w2 ! a" for obj
    using ne by simp_all
qed

theorem getScraper_fresh_instance_witness:
  "map_of scraperRegistry ''linkedin'' = Some LinkedInJobsScraper
   \<and> fst (getScraper scraperRegistry ''linkedin'' Undefined world0) = Inr 0
   \<and> fst (getScraper scraperRegistry ''linkedin'' (Obj emptyConfig)
            (snd (getScraper scraperRegistry ''linkedin'' Undefined world0))) = Inr 1
   \<and> jobs (heap (snd (getScraper scraperRegistry ''linkedin'' Undefined world0)) ! 0) = []
   \<and> errors (heap (snd (getScraper scraperRegistry ''linkedin'' Undefined world0)) ! 0) = []"
proof -
  let ?g1 = "getScraper scraperRegistry ''linkedin'' Undefined world0"
  have reg: "map_of scraperRegistry ''linkedin'' = Some LinkedInJobsScraper"
    by (simp add: scraperRegistry_eq)
  have a: "fst ?g1 = Inr 0"
    by code_simp
  have b: "fst (getScraper scraperRegistry ''linkedin'' (Obj emptyConfig) (snd ?g1)) = Inr 1"
    by code_simp
  have first: "?g1 = (Inr 0, snd ?g1)"
    using a by (simp add: prod_eq_iff)
  have "jobs (heap (snd ?g1) ! 0) = [] \<and> errors (heap (snd ?g1) ! 0) = []"
    using getScraper_fresh_instance [OF reg, of Undefined world0] first by blast
  then show ?thesis
    using reg a b by simp
qed

section \<open>Fetching with retries\<close>

lemma fetchPageFrom_all_fail:
  assumes "nat (maxRetries this - a) = n" and "1 \<le> a" and "a \<le> maxRetries this"
      and "\<forall>i. a \<le> i \<and> i \<le> maxRetries this \<longrightarrow>
             axiosGet e (length (filter isGet (trace w)) + nat (i - a)) url = Inl (m i)"
  shows "fetchPageFrom e this url a lastError w =
           (Inl (Error (''Failed to fetch '' @ url @ '' after '' @ showInt (maxRetries this)
                        @ '' attempts: '' @ m (maxRetries this))),
            w\<lparr>trace := trace w @ concat (map (attemptEvents this url) [a..maxRetries this])\<rparr>)"
  using assms
proof (induction n arbitrary: a lastError w)
  case 0
  then have a: "a = maxRetries this" by simp
  have get: "axiosGet e (length (filter isGet (trace w))) url = Inl (m a)"
    using "0.prems"(4) a by force
  have stop: "fetchPageFrom e this url (a + 1) (Some (m a)) (w\<lparr>trace := trace w @ [Get url]\<rparr>)
      = (Inl (Error (''Failed to fetch '' @ url @ '' after '' @ showInt (maxRetries this)
                        @ '' attempts: '' @ m a)), w\<lparr>trace := trace w @ [Get url]\<rparr>)"
    using a by (subst fetchPageFrom.simps) simp
  show ?case
    using a get stop
    by (subst fetchPageFrom.simps) (simp add: httpGet_def attemptEvents_def)
next
  case (Suc n)
  then have lt: "a < maxRetries this" by simp
  have get: "axiosGet e (length (filter isGet (trace w))) url = Inl (m a)"
    using Suc.prems(4) lt by force
  let ?w = "delay (delayBetweenRequests this * a) (w\<lparr>trace := trace w @ [Get url]\<rparr>)"
  have gets: "length (filter isGet (trace ?w)) = Suc (length (filter isGet (trace w)))"
    by (simp add: delay_def)
  have later: "\<forall>i. a + 1 \<le> i \<and> i \<le> maxRetries this \<longrightarrow>
             axiosGet e (length (filter isGet (trace ?w)) + nat (i - (a + 1))) url = Inl (m i)"
  proof (intro allI impI)
    fix i assume i: "a + 1 \<le> i \<and> i \<le> maxRetries this"
    then have g: "axiosGet e (length (filter isGet (trace w)) + nat (i - a)) url = Inl (m i)"
      using Suc.prems(4) by force
    have "nat (i - a) = Suc (nat (i - (a + 1)))"
      using i by auto
    then have idx: "length (filter isGet (trace ?w)) + nat (i - (a + 1))
        = length (filter isGet (trace w)) + nat (i - a)"
      using gets by simp
    show "axiosGet e (length (filter isGet (trace ?w)) + nat (i - (a + 1))) url = Inl (m i)"
      using g by (simp only: idx)
  qed
  have n: "nat (maxRetries this - (a + 1)) = n"
    using Suc.prems(1) by auto
  have rest: "fetchPageFrom e this url (a + 1) (Some (m a)) ?w =
           (Inl (Error (''Failed to fetch '' @ url @ '' after '' @ showInt (maxRetries this)
                        @ '' attempts: '' @ m (maxRetries this))),
            ?w\<lparr>trace := trace ?w @ concat (map (attemptEvents this url) [a + 1..maxRetries this])\<rparr>)"
    using Suc.IH [OF n _ _ later] Suc.prems(2) lt by simp
  have range: "[a..maxRetries this] = a # [a + 1..maxRetries this]"
    using lt by (simp add: upto_rec1)
  show ?case
    using lt get rest range
    by (subst fetchPageFrom.simps) (simp add: httpGet_def attemptEvents_def delay_def)
qed

text \<open>
  C5. When every GET of a URL fails, attempt i with message m i, fetchPage makes exactly
  maxRetries attempts, sleeps attempt-number times the base delay after each attempt but
  the last, and fails with the error \<^verbatim>\<open>Failed to fetch <url> after <maxRetries> attempts:
  <message>\<close>, which contains the URL and the message of the last attempt's error.
\<close>

theorem fetchPage_retries_then_fails:
  assumes "1 \<le> maxRetries this"
      and "\<forall>i. 1 \<le> i \<and> i \<le> maxRetries this \<longrightarrow>
             axiosGet e (length (filter isGet (trace w)) + nat (i - 1)) url = Inl (m i)"
  shows "\<exists>msg.
           fetchPage e this url w =
             (Inl (Error msg),
              w\<lparr>trace := trace w @
                   concat (map (\<lambda>i. if i < maxRetries this
                                      then [Get url, Sleep (delayBetweenRequests this * i)]
                                      else [Get url]) [1..maxRetries this])\<rparr>)
         \<and> msg = ''Failed to fetch '' @ url @ '' after '' @ showInt (maxRetries this)
                    @ '' attempts: '' @ m (maxRetries this)
         \<and> sublist url msg \<and> sublist (m (maxRetries this)) msg"
proof -
  let ?msg = "''Failed to fetch '' @ url @ '' after '' @ showInt (maxRetries this)
                    @ '' attempts: '' @ m (maxRetries this)"
  have ev: "attemptEvents this url = (\<lambda>i. if i < maxRetries this
                                      then [Get url, Sleep (delayBetweenRequests this * i)]
                                      else [Get url])"
    by (rule ext) (simp add: attemptEvents_def)
  have run: "fetchPage e this url w =
             (Inl (Error ?msg),
              w\<lparr>trace := trace w @ concat (map (attemptEvents this url) [1..maxRetries this])\<rparr>)"
    unfolding fetchPage_def
    by (rule fetchPageFrom_all_fail [OF refl _ assms(1) assms(2)]) simp
  have u: "sublist url ?msg"
    by (rule sublist_appendI)
  have "sublist (m (maxRetries this))
          ((''Failed to fetch '' @ url @ '' after '' @ showInt (maxRetries this)
                    @ '' attempts: '') @ m (maxRetries this) @ [])"
    by (rule sublist_appendI)
  then have l: "sublist (m (maxRetries this)) ?msg"
    by simp
  show ?thesis
    using run u l unfolding ev by blast
qed

theorem fetchPage_retries_then_fails_witness:
  "(1::int) \<le> maxRetries (newLinkedInJobsScraper emptyConfig)
   \<and> fetchPage downEnv (newLinkedInJobsScraper emptyConfig) ''https://x.test/jobs'' world0 =
       (Inl (Error ''Failed to fetch https://x.test/jobs after 2 attempts: connect ECONNREFUSED''),
        world0\<lparr>trace := [Get ''https://x.test/jobs'', Sleep 3000, Get ''https://x.test/jobs'']\<rparr>)"
proof -
  have n: "maxRetries (newLinkedInJobsScraper emptyConfig) = 2"
    by code_simp
  have d: "delayBetweenRequests (newLinkedInJobsScraper emptyConfig) = 3000"
    by code_simp
  have one: "1 \<le> maxRetries (newLinkedInJobsScraper emptyConfig)"
    using n by simp
  have down: "\<forall>i. 1 \<le> i \<and> i \<le> maxRetries (newLinkedInJobsScraper emptyConfig) \<longrightarrow>
      axiosGet downEnv (length (filter isGet (trace world0)) + nat (i - 1)) ''https://x.test/jobs''
        = Inl ((\<lambda>i. ''connect ECONNREFUSED'') i)"
    by (simp add: downEnv_def quietEnv_def)
  have two: "[1..2::int] = [1, 2]"
    by (simp add: upto_rec1)
  have s2: "showInt 2 = ''2''"
    by code_simp
  have t0: "trace world0 = []"
    by (simp add: world0_def)
  show ?thesis
    using fetchPage_retries_then_fails [OF one down] one
    by (simp add: n d two s2 t0)
qed

section \<open>The page loop and the outcome of scrape\<close>

lemma untouched_refl: "untouched w w"
  by (simp add: untouched_def)

lemma untouched_trans: "untouched w w1 \<Longrightarrow> untouched w1 w2 \<Longrightarrow> untouched w w2"
  by (simp add: untouched_def)


lemma untouched_delay: "untouched w (delay ms w)"
  by (simp add: untouched_def delay_def)

lemma untouched_httpGet: "httpGet e url w = (r, w1) \<Longrightarrow> untouched w w1"
  by (auto simp: untouched_def httpGet_def)

lemma untouched_fetchPageFrom:
  "fetchPageFrom e this url attempt lastError w = (r, w') \<Longrightarrow> untouched w w'"
proof (induction e this url attempt lastError w arbitrary: r w' rule: fetchPageFrom.induct)
  case (1 e this url attempt lastError w)
  show ?case
  proof (cases "attempt \<le> maxRetries this")
    case False
    then have "w' = w"
      using "1.prems" by (subst (asm) fetchPageFrom.simps) (auto split: option.splits)
    then show ?thesis by (simp add: untouched_refl)
  next
    case True
    obtain g w1 where get: "httpGet e url w = (g, w1)"
      by (cases "httpGet e url w") auto
    have u1: "untouched w w1"
      using get by (rule untouched_httpGet)
    show ?thesis
    proof (cases g)
      case (Inr body)
      then have "w' = w1"
        using "1.prems" True get by (subst (asm) fetchPageFrom.simps) simp
      then show ?thesis using u1 by simp
    next
      case (Inl m)
      let ?w2 = "if attempt < maxRetries this
                 then delay (delayBetweenRequests this * attempt) w1 else w1"
      have u2: "untouched w1 ?w2"
        by (simp add: untouched_delay untouched_refl)
      have rec: "fetchPageFrom e this url (attempt + 1) (Some m) ?w2 = (r, w')"
        using "1.prems" True get Inl by (subst (asm) fetchPageFrom.simps) simp
      have "untouched ?w2 w'"
        using "1.IH" [OF True get [symmetric] Inl rec] .
      then show ?thesis
        using u1 u2 untouched_trans by blast
    qed
  qed
qed

lemma untouched_fetchAndParse:
  "fetchAndParse e this url w = (r, w') \<Longrightarrow> untouched w w'"
  unfolding fetchAndParse_def fetchPage_def by (rule untouched_fetchPageFrom)

lemma oficinaExtractEach_jobs:
  "oficinaExtractEach e els index acc this k = (js, this', k') \<Longrightarrow> jobs this' = jobs this"
proof (induction els arbitrary: index acc this k)
  case Nil
  then show ?case by simp
next
  case (Cons el els)
  then show ?case
    by (auto split: prod.splits sum.splits dest!: Cons.IH)
qed



lemma linkedInExtractEach_jobs:
  "linkedInExtractEach e els index acc this k = (js, this', k') \<Longrightarrow> this' = this"
proof (induction els arbitrary: index acc this k)
  case Nil
  then show ?case by simp
next
  case (Cons el els)
  then show ?case
    by (auto split: prod.splits sum.splits dest!: Cons.IH)
qed


lemma scrape_pageLoop:
  "scrape e this (Obj opts) w =
     (case finishScrape e (pageLoop e this opts w) of
        (result, this1, w1) \<Rightarrow> (Inr result, this1, w1))"
  by (cases "cls this") (simp_all add: scrape_def oficinaScrape_def linkedInScrape_def pageLoop_def)



section \<open>An empty first page\<close>

lemma oficinaExtractJobsFromPage_jobs:
  "oficinaExtractJobsFromPage e this body k = (js, this1, k1) \<Longrightarrow> jobs this1 = jobs this"
  unfolding oficinaExtractJobsFromPage_def by (rule oficinaExtractEach_jobs)

text \<open>
  C3. The claim is that a scraper with maxPages = 1 whose page has no listing attempts no
  further page, leaves the store alone and returns success with no jobs and the stats
  \<^verbatim>\<open>{saved: 0, duplicates: 0, failed: 0, total: 0}\<close>. All of it holds of the code but the
  last: the stats come from the early return of saveJobs, which has no \<^verbatim>\<open>total\<close>
  property. For an OficinaDeTrabajoCeiScraper whose first page is fetched and yields no
  listing, scrape returns the result below, in the state the fetch of that page left but
  for the clock, the Job collection neither changed nor called.
\<close>

theorem oficina_scrape_empty_page:
  assumes "cls this = OficinaDeTrabajoCeiScraper"
      and "o_maxPages opts = Some 1"
      and "oficinaBuildSearchUrl e (reset this) (orDefault (o_query opts) [])
             (orDefault (o_location opts) []) 1 = Inr url"
      and "fetchAndParse e (reset this) url w = (Inr body, w1)"
      and "oficinaExtractJobsFromPage e (reset this) body (ticks w1) = ([], this1, k)"
  shows "scrape e this (Obj opts) w =
           (Inr \<lparr> r_success = True, r_jobs = [],
                  r_stats = \<lparr>saved = 0, duplicates = 0, failed = 0, total = None\<rparr>,
                  r_errors = errors this1 \<rparr>, this1, w1\<lparr>ticks := k\<rparr>)
       \<and> store w1 = store w
       \<and> filter isUpdateOne (trace w1) = filter isUpdateOne (trace w)"
proof -
  have j: "jobs this1 = []"
    using oficinaExtractJobsFromPage_jobs [OF assms(5)] by (simp add: reset_def)
  have loop: "pageLoop e this opts w = (None, this1, w1\<lparr>ticks := k\<rparr>)"
    using assms
    by (simp add: pageLoop_def orDefault_def) (subst oficinaPages.simps, simp)
  have "untouched w w1"
    using assms(4) by (rule untouched_fetchAndParse)
  then show ?thesis
    using loop j
    by (simp add: scrape_pageLoop finishScrape_def saveJobs_def untouched_def)
qed

theorem oficina_scrape_empty_page_witness:
  "cls (newOficinaDeTrabajoCeiScraper emptyConfig) = OficinaDeTrabajoCeiScraper
   \<and> o_maxPages onePage = Some 1
   \<and> scrape quietEnv (newOficinaDeTrabajoCeiScraper emptyConfig) (Obj onePage) world0 =
       (Inr \<lparr> r_success = True, r_jobs = [],
              r_stats = \<lparr>saved = 0, duplicates = 0, failed = 0, total = None\<rparr>,
              r_errors = [] \<rparr>,
        reset (newOficinaDeTrabajoCeiScraper emptyConfig),
        world0\<lparr>trace := [Get ''https://www.oficinaempleo.cl/buscar-empleo?q=test'']\<rparr>)"
proof -
  let ?s = "newOficinaDeTrabajoCeiScraper emptyConfig"
  let ?url = "''https://www.oficinaempleo.cl/buscar-empleo?q=test''"
  let ?w1 = "world0\<lparr>trace := [Get ?url]\<rparr>"
  have c: "cls ?s = OficinaDeTrabajoCeiScraper"
    by code_simp
  have m: "o_maxPages onePage = Some 1"
    by code_simp
  have u: "oficinaBuildSearchUrl quietEnv (reset ?s) (orDefault (o_query onePage) [])
             (orDefault (o_location onePage) []) 1 = Inr ?url"
    by code_simp
  have f: "fetchAndParse quietEnv (reset ?s) ?url world0
             = (Inr ''<html><body></body></html>'', ?w1)"
    by code_simp
  have x: "oficinaExtractJobsFromPage quietEnv (reset ?s) ''<html><body></body></html>''
             (ticks ?w1) = ([], reset ?s, 0)"
    by code_simp
  have e0: "errors (reset ?s) = []"
    by (simp add: reset_def)
  have t0: "?w1\<lparr>ticks := 0\<rparr> = ?w1"
    by (simp add: world0_def)
  show ?thesis
    using oficina_scrape_empty_page [OF c m u f x] c m e0 t0
    by simp
qed

section \<open>Saving jobs\<close>


















section \<open>Relative dates\<close>

lemma match_three_days: "matchFrom daysAgoPattern ''3 days ago'' = Some [(2, ''days''), (1, ''3'')]"
  by code_simp

lemma match_hace: "matchFrom daysAgoPattern haceCincoDias = Some []"
  by code_simp

lemma linkedIn_three_days:
  "matchFrom (agoPattern ''hour'') ''3 days ago'' = None
   \<and> matchFrom (agoPattern ''day'') ''3 days ago'' = Some [(1, ''3'')]"
  by code_simp

lemma linkedIn_hace:
  "matchFrom (agoPattern ''hour'') haceCincoDias = None
   \<and> matchFrom (agoPattern ''day'') haceCincoDias = None
   \<and> matchFrom (agoPattern ''week'') haceCincoDias = None
   \<and> matchFrom (agoPattern ''month'') haceCincoDias = None"
  by code_simp

lemma date_texts:
  "extractText ''3 days ago'' = ''3 days ago'' \<and> extractText haceCincoDias = haceCincoDias
   \<and> haceCincoDias \<noteq> [] \<and> extractText [] = []"
  by code_simp

lemma parseInt_samples: "parseInt (Some ''3'') = Some 3 \<and> parseInt None = None"
  by code_simp

text \<open>
  C7. The claim is that relative-date parsing maps \<^verbatim>\<open>3 days ago\<close> to three days before
  now, the Spanish \<^verbatim>\<open>hace 5 dias\<close> to five days before now, and absent text to now. The
  first and the last hold of both parsers (within the range of a Date). For the Spanish
  text, extractPostedDate matches the bare alternative \<^verbatim>\<open>hace\<close> of its pattern, which
  captures no number, and sets the day to \<^verbatim>\<open>NaN\<close>: the result is an invalid Date;
  parsePostedDate matches none of its patterns and returns now.
\<close>

theorem relative_dates_parsed:
  "fst (extractPostedDate e (el\<lparr>el_dateText := ''3 days ago''\<rparr>) k)
     = timeClip (clock e k - 3 * 86400000)
   \<and> fst (parsePostedDate e ''3 days ago'' k) = timeClip (clock e k - 3 * 86400000)
   \<and> fst (extractPostedDate e (el\<lparr>el_dateText := []\<rparr>) k) = Date (clock e k)
   \<and> fst (parsePostedDate e [] k) = Date (clock e k)
   \<and> fst (extractPostedDate e (el\<lparr>el_dateText := haceCincoDias\<rparr>) k) = InvalidDate
   \<and> fst (parsePostedDate e haceCincoDias k) = Date (clock e k)"
proof (intro conjI)
  show "fst (extractPostedDate e (el\<lparr>el_dateText := ''3 days ago''\<rparr>) k)
     = timeClip (clock e k - 3 * 86400000)"
    using date_texts
    by (simp add: extractPostedDate_def match_three_days group_def parseInt_samples newDate_def
                  setDateBack_def)
  show "fst (parsePostedDate e ''3 days ago'' k) = timeClip (clock e k - 3 * 86400000)"
    by (simp add: parsePostedDate_def linkedIn_three_days group_def parseInt_samples newDate_def
                  setDateBack_def)
  show "fst (extractPostedDate e (el\<lparr>el_dateText := []\<rparr>) k) = Date (clock e k)"
    using date_texts by (simp add: extractPostedDate_def newDate_def)
  show "fst (parsePostedDate e [] k) = Date (clock e k)"
    by (simp add: parsePostedDate_def newDate_def)
  show "fst (extractPostedDate e (el\<lparr>el_dateText := haceCincoDias\<rparr>) k) = InvalidDate"
    using date_texts
    by (simp add: extractPostedDate_def match_hace group_def parseInt_samples newDate_def setDateBack_def)
  show "fst (parsePostedDate e haceCincoDias k) = Date (clock e k)"
    using date_texts
    by (simp add: parsePostedDate_def linkedIn_hace newDate_def)
qed

end
